theory Spec2Isabelle
  imports Main "HOL-Library.AList" "HOL-Library.Sublist"
begin

section \<open>Regenesis surgery: account handlers, source resolver, dump reader and validator\<close>

text \<open>
  A shallow embedding of the TypeScript sources of the regenesis-surgery package:
  \<^verbatim>\<open>scripts/handlers.ts\<close> (the handler table), \<^verbatim>\<open>scripts/utils.ts\<close> (\<^verbatim>\<open>findAccount\<close>,
  \<^verbatim>\<open>hexStringEqual\<close>, \<^verbatim>\<open>solcInput\<close>, \<^verbatim>\<open>readDumpFile\<close>, \<^verbatim>\<open>checkStateDumpRoot\<close>).
  A thrown exception is the left injection of a sum, \<^verbatim>\<open>undefined\<close> is \<open>None\<close>.
\<close>

subsection \<open>JavaScript strings\<close>

text \<open>
  Strings are lists of characters. The strings the program handles (hex addresses, hashes,
  bytecode, JSON text) are ASCII; \<^verbatim>\<open>toLowerCase\<close> is modelled on the ASCII letters.
\<close>

definition lower_char :: "char \<Rightarrow> char" where
  "lower_char c =
     (case map_of (zip ''ABCDEFGHIJKLMNOPQRSTUVWXYZ'' ''abcdefghijklmnopqrstuvwxyz'') c of
        None \<Rightarrow> c
      | Some d \<Rightarrow> d)"

definition toLowerCase :: "string \<Rightarrow> string" where
  "toLowerCase s = map lower_char s"

text \<open>\<^verbatim>\<open>s.startsWith(p)\<close>.\<close>

definition startsWith :: "string \<Rightarrow> string \<Rightarrow> bool" where
  "startsWith s p = (take (length p) s = p)"

text \<open>
  \<^verbatim>\<open>s.slice(a, b)\<close> with the relative indexing of ECMAScript: a negative index counts
  from the end, both ends are clamped to the string, an empty range gives the empty string.
\<close>

definition slice_index :: "nat \<Rightarrow> int \<Rightarrow> nat" where
  "slice_index len i = (if i < 0 then nat (max (int len + i) 0) else min (nat i) len)"

definition slice :: "string \<Rightarrow> int \<Rightarrow> int \<Rightarrow> string" where
  "slice s a b =
     (let from = slice_index (length s) a; to = slice_index (length s) b
      in take (to - from) (drop from s))"

text \<open>\<^verbatim>\<open>s.slice(a)\<close>: the end defaults to the length of the string.\<close>

definition slice_from :: "string \<Rightarrow> int \<Rightarrow> string" where
  "slice_from s a = drop (slice_index (length s) a) s"

text \<open>\<^verbatim>\<open>s.substr(0, n)\<close>.\<close>

definition substr0 :: "string \<Rightarrow> nat \<Rightarrow> string" where
  "substr0 s n = take n s"

text \<open>
  \<^verbatim>\<open>ethers.utils.isHexString(value)\<close> on a string, with no length argument: the value
  matches \<^verbatim>\<open>/^0x[0-9A-Fa-f]*$/\<close>.
\<close>

definition is_hex_digit :: "char \<Rightarrow> bool" where
  "is_hex_digit c = (c \<in> set ''0123456789abcdefABCDEF'')"

definition isHexString :: "string \<Rightarrow> bool" where
  "isHexString s = (take 2 s = ''0x'' \<and> list_all is_hex_digit (drop 2 s))"

text \<open>Decimal rendering of a length inside a template literal.\<close>

definition digit_char :: "nat \<Rightarrow> char" where
  "digit_char d = ''0123456789'' ! (d mod 10)"

fun show_nat :: "nat \<Rightarrow> string" where
  "show_nat n = (if n < 10 then [digit_char n] else show_nat (n div 10) @ [digit_char n])"

declare show_nat.simps [simp del]

subsection \<open>JavaScript values and errors\<close>

text \<open>
  The values \<^verbatim>\<open>JSON.parse\<close> produces, and \<^verbatim>\<open>NaN\<close>, which \<^verbatim>\<open>parseInt\<close> can add. An object
  is the list of its properties in enumeration order, with distinct keys. A missing
  property reads as \<^verbatim>\<open>undefined\<close>, modelled by \<open>None\<close>.
\<close>

datatype jsvalue =
    JNull
  | JBool bool
  | JNumber int
  | JNaN
  | JString string
  | JArray "jsvalue list"
  | JObject "(string \<times> jsvalue) list"

text \<open>
  An exception, by its class, carrying its message.
\<close>

datatype error =
    Error string
  | TypeError string
  | SyntaxError string
  | AssertionError string

fun message :: "error \<Rightarrow> string" where
  "message (Error m) = m"
| "message (TypeError m) = m"
| "message (SyntaxError m) = m"
| "message (AssertionError m) = m"

text \<open>The engine's message for reading property \<open>p\<close> of \<^verbatim>\<open>undefined\<close> or \<^verbatim>\<open>null\<close>.\<close>

definition cannot_read :: "string \<Rightarrow> string \<Rightarrow> error" where
  "cannot_read p of_what =
     TypeError (''Cannot read property '' @ [CHR 0x27] @ p @ [CHR 0x27] @ '' of '' @ of_what)"

definition bind_err :: "error + 'a \<Rightarrow> ('a \<Rightarrow> error + 'b) \<Rightarrow> error + 'b" where
  "bind_err m f = (case m of Inl e \<Rightarrow> Inl e | Inr x \<Rightarrow> f x)"

text \<open>A \<^verbatim>\<open>for ... of\<close> loop over a list that threads a state and stops at the first throw.\<close>

fun for_each :: "('a \<Rightarrow> 's \<Rightarrow> error + 's) \<Rightarrow> 'a list \<Rightarrow> 's \<Rightarrow> error + 's" where
  "for_each f [] s = Inr s"
| "for_each f (x # xs) s = (case f x s of Inl e \<Rightarrow> Inl e | Inr s' \<Rightarrow> for_each f xs s')"

text \<open>Truthiness of a value and of an optional string.\<close>

fun truthy :: "jsvalue \<Rightarrow> bool" where
  "truthy JNull = False"
| "truthy (JBool b) = b"
| "truthy (JNumber n) = (n \<noteq> 0)"
| "truthy JNaN = False"
| "truthy (JString s) = (s \<noteq> [])"
| "truthy (JArray xs) = True"
| "truthy (JObject fs) = True"

text \<open>
  \<^verbatim>\<open>v.p\<close> for one of the property names the program reads (\<^verbatim>\<open>root\<close>, \<^verbatim>\<open>address\<close>,
  \<^verbatim>\<open>language\<close>), none of which a primitive or an array has: \<^verbatim>\<open>null\<close> throws, an object
  is looked up, anything else gives \<^verbatim>\<open>undefined\<close>.
\<close>

fun get_prop :: "jsvalue \<Rightarrow> string \<Rightarrow> error + jsvalue option" where
  "get_prop JNull p = Inl (cannot_read p ''null'')"
| "get_prop (JObject fs) p = Inr (map_of fs p)"
| "get_prop v p = Inr None"


text \<open>
  \<^verbatim>\<open>parseInt(s, 10)\<close>: leading white space is skipped, a sign is read, then the longest
  run of decimal digits; no digit gives \<^verbatim>\<open>NaN\<close>. (Exact integers: the rounding of values
  beyond $2^{53}$ is not modelled.)
\<close>

definition is_white_space :: "char \<Rightarrow> bool" where
  "is_white_space c = (c \<in> set [CHR 0x09, CHR 0x0A, CHR 0x0B, CHR 0x0C, CHR 0x0D, CHR '' ''])"

definition is_digit :: "char \<Rightarrow> bool" where
  "is_digit c = (c \<in> set ''0123456789'')"

definition digit_value :: "char \<Rightarrow> int" where
  "digit_value c = int (length (takeWhile (\<lambda>d. d \<noteq> c) ''0123456789''))"

definition parse_digits :: "string \<Rightarrow> jsvalue" where
  "parse_digits s =
     (let ds = takeWhile is_digit s
      in if ds = [] then JNaN else JNumber (foldl (\<lambda>a c. 10 * a + digit_value c) 0 ds))"

definition negate :: "jsvalue \<Rightarrow> jsvalue" where
  "negate v = (case v of JNumber n \<Rightarrow> JNumber (- n) | _ \<Rightarrow> v)"

definition parseInt :: "string \<Rightarrow> jsvalue" where
  "parseInt s =
     (case dropWhile is_white_space s of
        [] \<Rightarrow> JNaN
      | c # cs \<Rightarrow>
          if c = CHR ''-'' then negate (parse_digits cs)
          else if c = CHR ''+'' then parse_digits cs
          else parse_digits (c # cs))"

subsection \<open>Data model (\<^verbatim>\<open>types.ts\<close>)\<close>

text \<open>
  Modelled from the spec: the interfaces of \<^verbatim>\<open>types.ts\<close>, which is not among the sources
  (spec sections 3 and 6), with the fields the code reads.

  An account of the state dump. The nonce is kept as the parsed JSON value, because the
  validator inspects its run-time type; the other fields have their declared types.
  \<^verbatim>\<open>code\<close> and \<^verbatim>\<open>storage\<close> are optional; a storage object is the list of its entries in
  enumeration order (insertion order: the keys are 0x-prefixed words, never array indices).
  \<^verbatim>\<open>Account\<close> is such an entry together with its address.
\<close>

record dump_account =
  nonce :: jsvalue
  balance :: string
  codeHash :: string
  root :: string
  code :: "string option"
  storage :: "(string \<times> string) list option"

record account = dump_account +
  address :: string


text \<open>
  Modelled from the spec: the archived verified-source record (\<^verbatim>\<open>EtherscanContract\<close> of
  \<^verbatim>\<open>types.ts\<close>, spec section 6) and the pool record \<^verbatim>\<open>UniswapPoolData\<close>, with the fields
  the code reads.
\<close>

record EtherscanContract =
  contractAddress :: string
  sourceCode :: string
  compilerVersion :: string
  optimizationUsed :: string
  runs :: string
  contractName :: string
  contractFileName :: "string option"

record UniswapPoolData =
  oldAddress :: string
  newAddress :: string

text \<open>
  Modelled from the spec: a chain-RPC client, of which \<^verbatim>\<open>getCode\<close> answers with the deployed
  code or fails, and the bundle \<^verbatim>\<open>SurgeryDataSources\<close> of \<^verbatim>\<open>types.ts\<close>.
\<close>

record provider =
  getCode :: "string \<Rightarrow> error + string"

record SurgeryDataSources =
  dump :: "account list"
  genesis :: "account list"
  pools :: "UniswapPoolData list"
  etherscanDump :: "EtherscanContract list"
  l1TestnetProvider :: provider
  l1MainnetProvider :: provider
  l2Provider :: provider

text \<open>
  Modelled from the spec: the compiler's standard-JSON output (spec section 6), as far as
  the handler reads it:
  \<^verbatim>\<open>contracts[file][name].evm.deployedBytecode.{object, immutableReferences}\<close>.
  Offsets and lengths are non-negative integers; the immutable references are the entries
  of the object in the order of \<^verbatim>\<open>Object.entries\<close>.
\<close>

record immutable_ref =
  start :: nat
  length_ref :: nat

record bytecode =
  object :: string
  immutableReferences :: "(string \<times> immutable_ref list) list option"

record contract_output =
  deployedBytecode :: "bytecode option"

record solc_output =
  contracts :: "(string \<times> (string \<times> contract_output) list) list option"

text \<open>
  Modelled from the spec: the enumeration \<^verbatim>\<open>AccountType\<close> of \<^verbatim>\<open>types.ts\<close>; its members are
  the keys of the handler table.
\<close>

datatype AccountType =
    EOA
  | PRECOMPILE
  | PREDEPLOY_DEAD
  | PREDEPLOY_WIPE
  | PREDEPLOY_NO_WIPE
  | PREDEPLOY_ETH
  | PREDEPLOY_WETH
  | UNISWAP_V3_FACTORY
  | UNISWAP_V3_NFPM
  | UNISWAP_V3_POOL
  | UNISWAP_V3_LIB
  | UNISWAP_V3_OTHER
  | UNVERIFIED
  | VERIFIED

subsection \<open>What the program imports\<close>

text \<open>
  Library functions and constants the sources import and do not define, taken as
  parameters: \<^verbatim>\<open>JSON.parse\<close>; the string conversion of a value inside a template literal
  or a property key; \<^verbatim>\<open>ethers.utils.keccak256\<close>, which throws on an argument that is not
  byte data; \<^verbatim>\<open>add0x\<close> of core-utils; \<^verbatim>\<open>getSolc(version).compile\<close> followed by
  \<^verbatim>\<open>JSON.parse\<close>, on the compiler input; and the tables of \<^verbatim>\<open>constants.ts\<close>.
\<close>

record env =
  JSON_parse :: "string \<Rightarrow> error + jsvalue"
  ToString :: "jsvalue \<Rightarrow> string"
  keccak256 :: "string \<Rightarrow> error + string"
  add0x :: "string \<Rightarrow> string"
  solc_compile :: "string \<Rightarrow> jsvalue \<Rightarrow> error + solc_output"
  COMPILER_VERSIONS_TO_SOLC :: "string \<Rightarrow> string option"
  OLD_ETH_ADDRESS :: string

text \<open>The two constants of ethereumjs-util: the hash of the empty code and of the empty trie.\<close>

definition KECCAK256_NULL_S :: string where
  "KECCAK256_NULL_S = ''c5d2460186f7233c927e7db2dcc703c0e500b653ca82273b7bfad8045d85a470''"

definition KECCAK256_RLP_S :: string where
  "KECCAK256_RLP_S = ''56e81f171bcc55a6ff8345e692c0f86e5b48e01b996cadc001622fb5e363b421''"

subsection \<open>\<^verbatim>\<open>utils.ts\<close>: account lookup\<close>

definition hexStringEqual :: "string \<Rightarrow> string \<Rightarrow> error + bool" where
  "hexStringEqual a b =
     (if \<not> isHexString a then Inl (Error (''not a hex string: '' @ a))
      else if \<not> isHexString b then Inl (Error (''not a hex string: '' @ b))
      else Inr (toLowerCase a = toLowerCase b))"

text \<open>
  \<^verbatim>\<open>dump.find(acc => hexStringEqual(acc.address, address))\<close>: the first account for which
  the callback holds, \<^verbatim>\<open>undefined\<close> when there is none; a throw of the callback ends the
  search.
\<close>

fun findAccount :: "account list \<Rightarrow> string \<Rightarrow> error + account option" where
  "findAccount [] a = Inr None"
| "findAccount (acc # rest) a =
     (case hexStringEqual (address acc) a of
        Inl e \<Rightarrow> Inl e
      | Inr True \<Rightarrow> Inr (Some acc)
      | Inr False \<Rightarrow> findAccount rest a)"

subsection \<open>\<^verbatim>\<open>utils.ts\<close>: the source resolver\<close>

text \<open>\<^verbatim>\<open>o.k = v\<close> on an object: an existing property keeps its place.\<close>

fun set_prop :: "jsvalue \<Rightarrow> string \<Rightarrow> jsvalue \<Rightarrow> jsvalue" where
  "set_prop (JObject fs) k v = JObject (AList.update k v fs)"
| "set_prop w k v = w"

definition base_input :: "EtherscanContract \<Rightarrow> jsvalue" where
  "base_input contract =
     JObject
      [(''language'', JString ''Solidity''),
       (''sources'',
          JObject [(''file'', JObject [(''content'', JString (sourceCode contract))])]),
       (''settings'',
          JObject
           [(''outputSelection'',
               JObject [(''*'', JObject [(''*'', JArray [JString ''*''])])]),
            (''optimizer'',
               JObject
                [(''enabled'', JBool (optimizationUsed contract = ''1'')),
                 (''runs'', parseInt (runs contract))])])]"

text \<open>
  The \<^verbatim>\<open>try\<close> block either returns the parsed JSON, or falls through with the sources
  replaced, or throws (the parse error, or the read of \<^verbatim>\<open>language\<close> on \<^verbatim>\<open>null\<close>); the
  \<^verbatim>\<open>catch\<close> only logs, and the base input is returned.
\<close>

definition solcInput :: "env \<Rightarrow> EtherscanContract \<Rightarrow> jsvalue" where
  "solcInput E contract =
     (let input = base_input contract;
          sourceCode0 = sourceCode contract;
          sourceCode1 = (if substr0 sourceCode0 2 = ''{{''
                         then slice sourceCode0 1 (- 1) else sourceCode0)
      in case JSON_parse E sourceCode1 of
           Inl e \<Rightarrow> input
         | Inr json \<Rightarrow>
             (case get_prop json ''language'' of
                Inl e \<Rightarrow> input
              | Inr language \<Rightarrow>
                  if (case language of None \<Rightarrow> False | Some l \<Rightarrow> truthy l) then json
                  else set_prop input ''sources'' json))"

subsection \<open>\<^verbatim>\<open>handlers.ts\<close>: the VERIFIED handler\<close>

text \<open>
  \<^verbatim>\<open>output.contracts[contract.contractFileName][contract.contractName]\<close> when a file name
  is recorded (a non-empty string), \<^verbatim>\<open>output.contracts.file[contract.contractName]\<close>
  otherwise. Indexing \<^verbatim>\<open>undefined\<close> throws; a missing contract name gives \<^verbatim>\<open>undefined\<close>.
\<close>

definition index2 :: "solc_output \<Rightarrow> string \<Rightarrow> string \<Rightarrow> error + contract_output option" where
  "index2 output file_key name =
     (case contracts output of
        None \<Rightarrow> Inl (cannot_read file_key ''undefined'')
      | Some cs \<Rightarrow>
          (case map_of cs file_key of
             None \<Rightarrow> Inl (cannot_read name ''undefined'')
           | Some file \<Rightarrow> Inr (map_of file name)))"

definition select_contract :: "EtherscanContract \<Rightarrow> solc_output \<Rightarrow> error + contract_output option" where
  "select_contract contract output =
     (case contractFileName contract of
        Some fileName \<Rightarrow>
          if fileName \<noteq> [] then index2 output fileName (contractName contract)
          else index2 output ''file'' (contractName contract)
      | None \<Rightarrow> index2 output ''file'' (contractName contract))"

text \<open>
  The value \<^verbatim>\<open>immutable\<close> cut out of the paired bytecode at a range, and the string
  \<^verbatim>\<open>bytecode = pre + immutable + post\<close> built around a range of \<^verbatim>\<open>object\<close>. The ranges
  index the characters of the strings, as \<^verbatim>\<open>slice\<close> does.
\<close>

definition immutable_value :: "string \<Rightarrow> immutable_ref \<Rightarrow> string" where
  "immutable_value ovmObject ovmRef =
     slice ovmObject (int (start ovmRef)) (int (start ovmRef + length_ref ovmRef))"

definition spliced :: "string \<Rightarrow> immutable_ref \<Rightarrow> string \<Rightarrow> string" where
  "spliced obj ref immutable =
     (let pre = slice obj 0 (int (start ref));
          post = slice_from obj (int (start ref + length_ref ref))
      in pre @ immutable @ post)"

text \<open>
  The body of the inner loop, for the occurrence \<open>ref\<close> at position \<open>i\<close> of one named
  immutable. The bytecode that is cut is read from \<^verbatim>\<open>mainOutput\<close> in every iteration.
\<close>

definition splice_ref ::
  "env \<Rightarrow> contract_output \<Rightarrow> string \<Rightarrow> immutable_ref list \<Rightarrow> nat \<times> immutable_ref
     \<Rightarrow> account \<Rightarrow> error + account" where
  "splice_ref E mainOutput ovmObject ovmValue entry account =
     (let i = fst entry; ref = snd entry
      in if \<not> i < length ovmValue then Inl (cannot_read ''length'' ''undefined'')
         else
           let ovmRef = ovmValue ! i
           in if length_ref ref \<noteq> length_ref ovmRef then Inl (Error ''length mismatch'')
              else
                let immutable = immutable_value ovmObject ovmRef
                in case deployedBytecode mainOutput of
                     None \<Rightarrow> Inl (Error ''deployedBytecode undefined'')
                   | Some b \<Rightarrow>
                       let obj = object b;
                           bytecode = spliced obj ref immutable
                       in if length bytecode \<noteq> length obj
                          then Inl (Error (''mismatch in size: '' @ show_nat (length bytecode)
                                            @ '' vs '' @ show_nat (length obj)))
                          else bind_err (keccak256 E bytecode)
                                 (\<lambda>h. Inr (account\<lparr>code := Some bytecode, codeHash := h\<rparr>)))"

text \<open>The body of the outer loop, for one entry of \<^verbatim>\<open>Object.entries(immutableRefs)\<close>.\<close>

definition splice_key ::
  "env \<Rightarrow> contract_output \<Rightarrow> string \<Rightarrow> (string \<times> immutable_ref list) list option
     \<Rightarrow> string \<times> immutable_ref list \<Rightarrow> account \<Rightarrow> error + account" where
  "splice_key E mainOutput ovmObject ovmImmutableRefs entry account =
     (let key = fst entry; val = snd entry
      in case ovmImmutableRefs of
           None \<Rightarrow> Inl (cannot_read key ''undefined'')
         | Some ovmRefs \<Rightarrow>
             (case map_of ovmRefs key of
                None \<Rightarrow> Inl (Error ''cannot find ast in ovm compiler output'')
              | Some ovmValue \<Rightarrow>
                  for_each (splice_ref E mainOutput ovmObject ovmValue) (enumerate 0 val) account))"

definition relocate ::
  "env \<Rightarrow> contract_output \<Rightarrow> string \<Rightarrow> (string \<times> immutable_ref list) list option
     \<Rightarrow> (string \<times> immutable_ref list) list \<Rightarrow> account \<Rightarrow> error + account" where
  "relocate E mainOutput ovmObject ovmImmutableRefs immutableRefs account =
     for_each (splice_key E mainOutput ovmObject ovmImmutableRefs) immutableRefs account"

text \<open>The second compilation, and the iteration over the immutable references.\<close>

definition relocate_immutables ::
  "env \<Rightarrow> EtherscanContract \<Rightarrow> jsvalue \<Rightarrow> contract_output
     \<Rightarrow> (string \<times> immutable_ref list) list \<Rightarrow> account \<Rightarrow> error + account" where
  "relocate_immutables E contract input mainOutput immutableRefs account =
     bind_err (solc_compile E (compilerVersion contract) input) (\<lambda>ovmOutput.
     bind_err (select_contract contract ovmOutput) (\<lambda>ovmFile.
       case ovmFile of
         None \<Rightarrow> Inl (cannot_read ''evm'' ''undefined'')
       | Some ovmFile \<Rightarrow>
           (case deployedBytecode ovmFile of
              None \<Rightarrow> Inl (cannot_read ''immutableReferences'' ''undefined'')
            | Some ovmBytecode \<Rightarrow>
                relocate E mainOutput (object ovmBytecode) (immutableReferences ovmBytecode)
                  immutableRefs account)))"

text \<open>
  The handler, written in three parts: from the selected artifact \<^verbatim>\<open>mainOutput\<close> to the
  returned account; from the compiler's response to the selected artifact; and from the
  account to the compiler's response.
\<close>

definition verified_artifact ::
  "env \<Rightarrow> EtherscanContract \<Rightarrow> jsvalue \<Rightarrow> contract_output \<Rightarrow> account
     \<Rightarrow> error + account option" where
  "verified_artifact E contract input mainOutput account =
     (case deployedBytecode mainOutput of
        None \<Rightarrow> Inl (cannot_read ''object'' ''undefined'')
      | Some b \<Rightarrow>
          bind_err (keccak256 E (add0x E (object b))) (\<lambda>h.
            let account1 = account\<lparr>code := Some (object b), codeHash := h\<rparr>
            in case immutableReferences b of
                 None \<Rightarrow> Inr (Some account1)
               | Some immutableRefs \<Rightarrow>
                   if immutableRefs = [] then Inr (Some account1)
                   else bind_err
                          (relocate_immutables E contract input mainOutput immutableRefs account1)
                          (\<lambda>account2. Inr (Some account2))))"

definition verified_output ::
  "env \<Rightarrow> EtherscanContract \<Rightarrow> jsvalue \<Rightarrow> solc_output \<Rightarrow> account
     \<Rightarrow> error + account option" where
  "verified_output E contract input output account =
     (case contracts output of
        None \<Rightarrow> Inl (Error (''Cannot compile '' @ contractAddress contract))
      | Some cs \<Rightarrow>
          bind_err (select_contract contract output) (\<lambda>mainOutput.
            case mainOutput of
              None \<Rightarrow> Inl (Error (''Contract filename mismatch: '' @ contractAddress contract))
            | Some mainOutput \<Rightarrow> verified_artifact E contract input mainOutput account))"

definition verified :: "env \<Rightarrow> account \<Rightarrow> SurgeryDataSources \<Rightarrow> error + account option" where
  "verified E account data =
     (case find (\<lambda>c. contractAddress c = address account) (etherscanDump data) of
        None \<Rightarrow> Inl (Error (''Unable to find '' @ address account @ '' in etherscan dump''))
      | Some contract \<Rightarrow>
          let input = solcInput E contract;
              version = (case COMPILER_VERSIONS_TO_SOLC E (compilerVersion contract) of
                           None \<Rightarrow> None
                         | Some v \<Rightarrow> if v = [] then None else Some v)
          in (case version of
               None \<Rightarrow> Inl (Error (''Unable to find solc version '' @ compilerVersion contract))
             | Some version \<Rightarrow>
                 bind_err (solc_compile E version input) (\<lambda>output.
                   verified_output E contract input output account)))"

subsection \<open>\<^verbatim>\<open>handlers.ts\<close>: the handler table\<close>

text \<open>
  An object spread \<^verbatim>\<open>{...a, ...b}\<close> of two optional storage objects: the entries of \<open>a\<close>,
  then those of \<open>b\<close>, a repeated key keeping its place and taking the later value.
  Spreading \<^verbatim>\<open>undefined\<close> adds nothing.
\<close>

definition spread :: "(string \<times> string) list option \<Rightarrow> (string \<times> string) list" where
  "spread s = (case s of None \<Rightarrow> [] | Some entries \<Rightarrow> entries)"

definition spread2 ::
  "(string \<times> string) list option \<Rightarrow> (string \<times> string) list option \<Rightarrow> (string \<times> string) list" where
  "spread2 a b = foldl (\<lambda>m kv. AList.update (fst kv) (snd kv) m) (spread a) (spread b)"

text \<open>The result \<open>None\<close> is \<^verbatim>\<open>undefined\<close>: the account is deleted.\<close>

fun handlers :: "env \<Rightarrow> AccountType \<Rightarrow> account \<Rightarrow> SurgeryDataSources \<Rightarrow> error + account option" where
  "handlers E EOA account data =
     Inr (Some \<lparr>nonce = nonce account, balance = balance account,
                codeHash = KECCAK256_NULL_S, root = KECCAK256_RLP_S,
                code = None, storage = None, address = address account\<rparr>)"
| "handlers E PRECOMPILE account data = Inr (Some account)"
| "handlers E PREDEPLOY_DEAD account data = Inr None"
| "handlers E PREDEPLOY_WIPE account data =
     bind_err (findAccount (genesis data) (address account)) (\<lambda>genesisAccount.
       case genesisAccount of
         None \<Rightarrow> Inl (cannot_read ''code'' ''undefined'')
       | Some g \<Rightarrow> Inr (Some (account\<lparr>code := code g, codeHash := codeHash g,
                                       storage := storage g\<rparr>)))"
| "handlers E PREDEPLOY_NO_WIPE account data =
     bind_err (findAccount (genesis data) (address account)) (\<lambda>genesisAccount.
       case genesisAccount of
         None \<Rightarrow> Inl (cannot_read ''code'' ''undefined'')
       | Some g \<Rightarrow> Inr (Some (account\<lparr>code := code g, codeHash := codeHash g,
                                       storage := Some (spread2 (storage account) (storage g))\<rparr>)))"
| "handlers E PREDEPLOY_ETH account data =
     bind_err (findAccount (genesis data) (address account)) (\<lambda>genesisAccount.
     bind_err (findAccount (dump data) (OLD_ETH_ADDRESS E)) (\<lambda>oldEthAccount.
       case genesisAccount of
         None \<Rightarrow> Inl (cannot_read ''code'' ''undefined'')
       | Some g \<Rightarrow>
           (case oldEthAccount of
              None \<Rightarrow> Inl (cannot_read ''storage'' ''undefined'')
            | Some old \<Rightarrow> Inr (Some (account\<lparr>code := code g, codeHash := codeHash g,
                                       storage := Some (spread2 (storage old) (storage g))\<rparr>)))))"
| "handlers E PREDEPLOY_WETH account data = Inl (Error ''Not implemented'')"
| "handlers E UNISWAP_V3_FACTORY account data = Inl (Error ''Not implemented'')"
| "handlers E UNISWAP_V3_NFPM account data = Inl (Error ''Not implemented'')"
| "handlers E UNISWAP_V3_POOL account data =
     (case find (\<lambda>pool. oldAddress pool = address account) (pools data) of
        None \<Rightarrow> Inl (cannot_read ''newAddress'' ''undefined'')
      | Some poolData \<Rightarrow>
          bind_err (getCode (l1TestnetProvider data) (newAddress poolData)) (\<lambda>poolCode.
          bind_err (keccak256 E poolCode) (\<lambda>h.
            Inr (Some (account\<lparr>address := newAddress poolData, code := Some poolCode,
                               codeHash := h\<rparr>)))))"
| "handlers E UNISWAP_V3_LIB account data = Inr None"
| "handlers E UNISWAP_V3_OTHER account data =
     bind_err (getCode (l1MainnetProvider data) (address account)) (\<lambda>code'.
     bind_err (keccak256 E code') (\<lambda>h.
       Inr (Some (account\<lparr>code := Some code', codeHash := h\<rparr>))))"
| "handlers E UNVERIFIED account data = Inr None"
| "handlers E VERIFIED account data = verified E account data"

subsection \<open>\<^verbatim>\<open>utils.ts\<close>: the dump reader\<close>









subsection \<open>\<^verbatim>\<open>utils.ts\<close>: the dump validator\<close>









subsection \<open>Example inputs\<close>

text \<open>
  The account of the unit tests (\<^verbatim>\<open>test/unit-tests/handlers.spec.ts\<close>), and stand-ins for
  the imported functions: a hash that, like the library's, accepts 0x-prefixed hex data of
  even length only and returns a made-up digest, and the \<^verbatim>\<open>add0x\<close> that prefixes once.
\<close>

definition dummyAccount :: account where
  "dummyAccount =
     \<lparr>nonce = JNumber 69, balance = ''0'', codeHash = ''420e69'', root = ''420e69'',
      code = Some ''608060405'',
      storage = Some [(''0x0000000000000000000000000000000000000420'',
                       ''0000000000000000000000000000000000000420'')],
      address = ''0x0000000000000000000000000000000000000420''\<rparr>"

text \<open>
  JSON texts, with the values \<^verbatim>\<open>JSON.parse\<close> gives for them: the root line and an account
  line of a dump, a multi-file source bundle, a complete compiler input; every other text
  of the examples is not JSON.
\<close>

definition quoted :: "string \<Rightarrow> string" where
  "quoted s = [CHR 0x22] @ s @ [CHR 0x22]"

definition root_line :: string where
  "root_line = ''{'' @ quoted ''root'' @ '':'' @ quoted ''0x56e81f17'' @ ''}''"

definition account_line :: string where
  "account_line =
     ''{'' @ quoted ''address'' @ '':'' @ quoted ''0x0000000000000000000000000000000000000420''
       @ '','' @ quoted ''key'' @ '':'' @ quoted ''0x1234''
       @ '','' @ quoted ''nonce'' @ '':69''
       @ '','' @ quoted ''balance'' @ '':'' @ quoted ''0'' @ ''}''"

definition sources_text :: string where
  "sources_text =
     ''{'' @ quoted ''A.sol'' @ '':{'' @ quoted ''content'' @ '':'' @ quoted ''contract A {}''
       @ ''}}''"

definition input_text :: string where
  "input_text =
     ''{'' @ quoted ''language'' @ '':'' @ quoted ''Solidity''
       @ '','' @ quoted ''sources'' @ '':{}}''"

definition example_parse :: "string \<Rightarrow> error + jsvalue" where
  "example_parse s =
     (if s = root_line then Inr (JObject [(''root'', JString ''0x56e81f17'')])
      else if s = account_line then
        Inr (JObject [(''address'', JString ''0x0000000000000000000000000000000000000420''),
                      (''key'', JString ''0x1234''),
                      (''nonce'', JNumber 69),
                      (''balance'', JString ''0'')])
      else if s = sources_text then
        Inr (JObject [(''A.sol'', JObject [(''content'', JString ''contract A {}'')])])
      else if s = input_text then
        Inr (JObject [(''language'', JString ''Solidity''), (''sources'', JObject [])])
      else Inl (SyntaxError ''Unexpected token''))"

definition example_contract :: EtherscanContract where
  "example_contract =
     \<lparr>contractAddress = ''0x0000000000000000000000000000000000000420'',
      sourceCode = ''contract C {}'',
      compilerVersion = ''v0.6.12'',
      optimizationUsed = ''1'',
      runs = ''200'',
      contractName = ''C'',
      contractFileName = None\<rparr>"

definition example_keccak256 :: "string \<Rightarrow> error + string" where
  "example_keccak256 s =
     (if isHexString s \<and> even (length s) then Inr (''0xdigest_of_'' @ drop 2 s)
      else Inl (Error ''invalid arrayify value''))"

definition example_add0x :: "string \<Rightarrow> string" where
  "example_add0x s = (if startsWith s ''0x'' then s else ''0x'' @ s)"

definition offline :: provider where
  "offline = \<lparr>getCode = (\<lambda>a. Inl (Error ''could not detect network''))\<rparr>"

definition example_env :: env where
  "example_env =
     \<lparr>JSON_parse = example_parse,
      ToString = (\<lambda>v. ''[object Object]''),
      keccak256 = example_keccak256,
      add0x = example_add0x,
      solc_compile = (\<lambda>version input. Inl (Error ''Cannot find module'')),
      COMPILER_VERSIONS_TO_SOLC = Map.empty,
      OLD_ETH_ADDRESS = ''0x4200000000000000000000000000000000000006''\<rparr>"

definition example_data :: SurgeryDataSources where
  "example_data =
     \<lparr>dump = [], genesis = [], pools = [], etherscanDump = [],
      l1TestnetProvider = offline, l1MainnetProvider = offline, l2Provider = offline\<rparr>"

definition example_pool :: UniswapPoolData where
  "example_pool =
     \<lparr>oldAddress = ''0x0000000000000000000000000000000000000420'',
      newAddress = ''0x00000000000000000000000000000000000000aa''\<rparr>"

definition example_testnet :: provider where
  "example_testnet = \<lparr>getCode = (\<lambda>a. Inr (if a = newAddress example_pool then ''0x6080'' else ''0x''))\<rparr>"

text \<open>Two genesis accounts: one under a 0x-prefixed address, one under a bare hex address.\<close>

definition genesis_account :: account where
  "genesis_account =
     \<lparr>nonce = JNumber 0, balance = ''0'', codeHash = ''0xc0de'', root = ''0x7007'',
      code = Some ''0x6001'', storage = Some [(''0x00'', ''0x01'')],
      address = ''0x4200000000000000000000000000000000000007''\<rparr>"

definition bare_genesis_account :: account where
  "bare_genesis_account = genesis_account\<lparr>address := ''4200000000000000000000000000000000000007''\<rparr>"




text \<open>
  A contract with one immutable that occurs twice, compiled by the new compiler and by the
  paired one (the bytecode strings carry the 0x prefix, so that the hash accepts them), and
  the tables of compiler versions and compilers.
\<close>

definition new_bytecode :: bytecode where
  "new_bytecode =
     \<lparr>object = ''0x00000000'',
      immutableReferences =
        Some [(''7'', [\<lparr>start = 2, length_ref = 2\<rparr>, \<lparr>start = 6, length_ref = 2\<rparr>])]\<rparr>"

definition ovm_bytecode :: bytecode where
  "ovm_bytecode =
     \<lparr>object = ''0xaabbccdd'',
      immutableReferences =
        Some [(''7'', [\<lparr>start = 2, length_ref = 2\<rparr>, \<lparr>start = 6, length_ref = 2\<rparr>])]\<rparr>"

definition example_compile :: "string \<Rightarrow> jsvalue \<Rightarrow> error + solc_output" where
  "example_compile version input =
     (if version = ''v0.6.12+commit.27d51765''
      then Inr \<lparr>contracts = Some [(''file'', [(''C'', \<lparr>deployedBytecode = Some new_bytecode\<rparr>)])]\<rparr>
      else if version = ''v0.6.12''
      then Inr \<lparr>contracts = Some [(''file'', [(''C'', \<lparr>deployedBytecode = Some ovm_bytecode\<rparr>)])]\<rparr>
      else Inl (Error ''Cannot find module''))"

definition compiler_env :: env where
  "compiler_env =
     example_env\<lparr>solc_compile := example_compile,
                 COMPILER_VERSIONS_TO_SOLC := map_of [(''v0.6.12'', ''v0.6.12+commit.27d51765'')]\<rparr>"

definition verified_data :: SurgeryDataSources where
  "verified_data = example_data\<lparr>etherscanDump := [example_contract]\<rparr>"

section \<open>Properties\<close>

subsection \<open>Account lookup and the predeploy handlers\<close>

lemma findAccount_none:
  "isHexString a \<Longrightarrow>
   \<forall>g\<in>set d. isHexString (address g) \<and> toLowerCase (address g) \<noteq> toLowerCase a \<Longrightarrow>
   findAccount d a = Inr None"
  by (induction d) (simp_all add: hexStringEqual_def)

lemma hex_has_zero: "isHexString a \<Longrightarrow> CHR ''0'' \<in> set a"
proof -
  assume "isHexString a"
  then have "take 2 a = ''0x''" by (simp add: isHexString_def)
  then have "CHR ''0'' \<in> set (take 2 a)" by simp
  then show ?thesis by (rule in_set_takeD)
qed

lemma hex_not_in_type_error:
  assumes "isHexString a" and "CHR ''0'' \<notin> set p" and "CHR ''0'' \<notin> set w"
  shows "\<not> sublist a (message (cannot_read p w))"
proof
  assume "sublist a (message (cannot_read p w))"
  then have "set a \<subseteq> set (message (cannot_read p w))" by (rule set_mono_sublist)
  with hex_has_zero [OF assms(1)] have "CHR ''0'' \<in> set (message (cannot_read p w))" by blast
  with assms(2,3) show False by (simp add: cannot_read_def)
qed

text \<open>
  C4. For every input account, the EOA handler returns an account without code and without
  storage, whose code hash is the hash of the empty code and whose storage root is the hash
  of the empty trie; address, nonce and balance are those of the input.
\<close>

theorem eoa_handler:
  "\<exists>out. handlers E EOA account data = Inr (Some out)
     \<and> code out = None \<and> storage out = None
     \<and> codeHash out = KECCAK256_NULL_S \<and> root out = KECCAK256_RLP_S
     \<and> address out = address account \<and> nonce out = nonce account
     \<and> balance out = balance account"
  by simp

text \<open>
  C5. For a UNISWAP_V3_POOL account whose address is the old address of an entry of the pool
  list, when the \<^verbatim>\<open>l1TestnetProvider\<close> client answers with the code at the entry's new
  address and the hash accepts it: the output has the new address, that code, the hash of
  that code, and the nonce, balance, storage and storage root of the input.
\<close>

theorem uniswap_pool_handler:
  assumes "find (\<lambda>pool. oldAddress pool = address account) (pools data) = Some poolData"
    and "getCode (l1TestnetProvider data) (newAddress poolData) = Inr poolCode"
    and "keccak256 E poolCode = Inr h"
  shows "\<exists>out. handlers E UNISWAP_V3_POOL account data = Inr (Some out)
           \<and> address out = newAddress poolData \<and> code out = Some poolCode \<and> codeHash out = h
           \<and> nonce out = nonce account \<and> balance out = balance account
           \<and> storage out = storage account \<and> root out = root account"
  using assms by (simp add: bind_err_def)

theorem uniswap_pool_handler_witness:
  "find (\<lambda>pool. oldAddress pool = address dummyAccount) [example_pool] = Some example_pool
   \<and> getCode example_testnet (newAddress example_pool) = Inr ''0x6080''
   \<and> keccak256 example_env ''0x6080'' = Inr ''0xdigest_of_6080''
   \<and> (\<exists>out. handlers example_env UNISWAP_V3_POOL dummyAccount
               (example_data\<lparr>pools := [example_pool], l1TestnetProvider := example_testnet\<rparr>)
             = Inr (Some out)
           \<and> address out = ''0x00000000000000000000000000000000000000aa''
           \<and> code out = Some ''0x6080'' \<and> codeHash out = ''0xdigest_of_6080''
           \<and> nonce out = JNumber 69 \<and> balance out = ''0''
           \<and> storage out = storage dummyAccount \<and> root out = ''420e69'')"
proof -
  have f: "find (\<lambda>pool. oldAddress pool = address dummyAccount) [example_pool] = Some example_pool"
    by (simp add: example_pool_def dummyAccount_def)
  have g: "getCode example_testnet (newAddress example_pool) = Inr ''0x6080''"
    by (simp add: example_testnet_def)
  have k: "keccak256 example_env ''0x6080'' = Inr ''0xdigest_of_6080''"
    by (simp add: example_env_def example_keccak256_def isHexString_def is_hex_digit_def)
  from f g k
    uniswap_pool_handler [of dummyAccount
      "example_data\<lparr>pools := [example_pool], l1TestnetProvider := example_testnet\<rparr>"
      example_pool "''0x6080''" example_env "''0xdigest_of_6080''"]
  show ?thesis by (simp add: example_pool_def dummyAccount_def)
qed

text \<open>
  C9 (as amended). The PREDEPLOY_WIPE, PREDEPLOY_NO_WIPE and PREDEPLOY_ETH handlers are
  partial. When the account's address and the addresses of the genesis dump are hex strings
  and no genesis address equals the account's address up to letter case, \<^verbatim>\<open>findAccount\<close>
  gives \<^verbatim>\<open>undefined\<close> and the WIPE and NO_WIPE handlers throw the \<^verbatim>\<open>TypeError\<close> of reading
  \<^verbatim>\<open>code\<close> of \<^verbatim>\<open>undefined\<close>, whose message does not contain the address; so does the ETH
  handler when its second lookup does not throw. When the genesis lookup succeeds and the
  legacy dump, all of hex addresses, has no entry for the legacy ETH address, the ETH
  handler throws the \<^verbatim>\<open>TypeError\<close> of reading \<^verbatim>\<open>storage\<close> of \<^verbatim>\<open>undefined\<close>.
\<close>

theorem predeploy_handlers_partial:
  "(isHexString (address account)
      \<and> (\<forall>g\<in>set (genesis data). isHexString (address g)
            \<and> toLowerCase (address g) \<noteq> toLowerCase (address account))
    \<longrightarrow> findAccount (genesis data) (address account) = Inr None
      \<and> handlers E PREDEPLOY_WIPE account data = Inl (cannot_read ''code'' ''undefined'')
      \<and> handlers E PREDEPLOY_NO_WIPE account data = Inl (cannot_read ''code'' ''undefined'')
      \<and> \<not> sublist (address account) (message (cannot_read ''code'' ''undefined'')))
   \<and> (findAccount (genesis data) (address account) = Inr None
      \<and> (\<exists>r. findAccount (dump data) (OLD_ETH_ADDRESS E) = Inr r)
    \<longrightarrow> handlers E PREDEPLOY_ETH account data = Inl (cannot_read ''code'' ''undefined''))
   \<and> (isHexString (address account)
      \<and> (\<exists>g. findAccount (genesis data) (address account) = Inr (Some g))
      \<and> isHexString (OLD_ETH_ADDRESS E)
      \<and> (\<forall>old\<in>set (dump data). isHexString (address old)
            \<and> toLowerCase (address old) \<noteq> toLowerCase (OLD_ETH_ADDRESS E))
    \<longrightarrow> findAccount (dump data) (OLD_ETH_ADDRESS E) = Inr None
      \<and> handlers E PREDEPLOY_ETH account data = Inl (cannot_read ''storage'' ''undefined'')
      \<and> \<not> sublist (address account) (message (cannot_read ''storage'' ''undefined'')))"
proof (intro conjI impI)
  assume h: "isHexString (address account)
      \<and> (\<forall>g\<in>set (genesis data). isHexString (address g)
            \<and> toLowerCase (address g) \<noteq> toLowerCase (address account))"
  then show f: "findAccount (genesis data) (address account) = Inr None"
    by (simp add: findAccount_none)
  from f show "handlers E PREDEPLOY_WIPE account data = Inl (cannot_read ''code'' ''undefined'')"
    by (simp add: bind_err_def)
  from f show "handlers E PREDEPLOY_NO_WIPE account data = Inl (cannot_read ''code'' ''undefined'')"
    by (simp add: bind_err_def)
  from h show "\<not> sublist (address account) (message (cannot_read ''code'' ''undefined''))"
    by (intro hex_not_in_type_error) simp_all
next
  assume "findAccount (genesis data) (address account) = Inr None
      \<and> (\<exists>r. findAccount (dump data) (OLD_ETH_ADDRESS E) = Inr r)"
  then show "handlers E PREDEPLOY_ETH account data = Inl (cannot_read ''code'' ''undefined'')"
    by (auto simp add: bind_err_def)
next
  assume h: "isHexString (address account)
      \<and> (\<exists>g. findAccount (genesis data) (address account) = Inr (Some g))
      \<and> isHexString (OLD_ETH_ADDRESS E)
      \<and> (\<forall>old\<in>set (dump data). isHexString (address old)
            \<and> toLowerCase (address old) \<noteq> toLowerCase (OLD_ETH_ADDRESS E))"
  then show f: "findAccount (dump data) (OLD_ETH_ADDRESS E) = Inr None"
    by (simp add: findAccount_none)
  from h f show "handlers E PREDEPLOY_ETH account data = Inl (cannot_read ''storage'' ''undefined'')"
    by (auto simp add: bind_err_def)
  from h show "\<not> sublist (address account) (message (cannot_read ''storage'' ''undefined''))"
    by (intro hex_not_in_type_error) simp_all
qed

lemma example_addresses_hex:
  "isHexString (address dummyAccount)" "isHexString (address genesis_account)"
  "isHexString (OLD_ETH_ADDRESS example_env)"
  by (simp_all add: dummyAccount_def genesis_account_def example_env_def isHexString_def
        is_hex_digit_def)

lemma example_addresses_differ:
  "toLowerCase (address genesis_account) \<noteq> toLowerCase (address dummyAccount)"
  "toLowerCase (address dummyAccount) \<noteq> toLowerCase (OLD_ETH_ADDRESS example_env)"
  by (simp_all add: dummyAccount_def genesis_account_def example_env_def toLowerCase_def
        lower_char_def)

theorem predeploy_handlers_partial_witness:
  "isHexString (address dummyAccount)
   \<and> findAccount [genesis_account] (address dummyAccount) = Inr None
   \<and> handlers example_env PREDEPLOY_WIPE dummyAccount (example_data\<lparr>genesis := [genesis_account]\<rparr>)
       = Inl (cannot_read ''code'' ''undefined'')
   \<and> handlers example_env PREDEPLOY_NO_WIPE dummyAccount (example_data\<lparr>genesis := [genesis_account]\<rparr>)
       = Inl (cannot_read ''code'' ''undefined'')
   \<and> handlers example_env PREDEPLOY_ETH dummyAccount (example_data\<lparr>genesis := [genesis_account]\<rparr>)
       = Inl (cannot_read ''code'' ''undefined'')
   \<and> findAccount [genesis_account] (address genesis_account) = Inr (Some genesis_account)
   \<and> findAccount [dummyAccount] (OLD_ETH_ADDRESS example_env) = Inr None
   \<and> handlers example_env PREDEPLOY_ETH genesis_account
        (example_data\<lparr>genesis := [genesis_account], dump := [dummyAccount]\<rparr>)
       = Inl (cannot_read ''storage'' ''undefined'')
   \<and> \<not> sublist (address dummyAccount) (message (cannot_read ''code'' ''undefined''))"
proof -
  let ?A = "example_data\<lparr>genesis := [genesis_account]\<rparr>"
  let ?B = "example_data\<lparr>genesis := [genesis_account], dump := [dummyAccount]\<rparr>"
  have a1: "isHexString (address dummyAccount)
      \<and> (\<forall>g\<in>set (genesis ?A). isHexString (address g)
            \<and> toLowerCase (address g) \<noteq> toLowerCase (address dummyAccount))"
    by (simp add: example_addresses_hex example_addresses_differ)
  have a2: "\<exists>r. findAccount (dump ?A) (OLD_ETH_ADDRESS example_env) = Inr r"
    by (simp add: example_data_def)
  have b1: "findAccount (genesis ?B) (address genesis_account) = Inr (Some genesis_account)"
    by (simp add: hexStringEqual_def example_addresses_hex)
  have b2: "isHexString (address genesis_account)
      \<and> (\<exists>g. findAccount (genesis ?B) (address genesis_account) = Inr (Some g))
      \<and> isHexString (OLD_ETH_ADDRESS example_env)
      \<and> (\<forall>old\<in>set (dump ?B). isHexString (address old)
            \<and> toLowerCase (address old) \<noteq> toLowerCase (OLD_ETH_ADDRESS example_env))"
    using b1 by (simp add: example_addresses_hex example_addresses_differ)
  from predeploy_handlers_partial [of dummyAccount ?A example_env] a1 a2
  have A: "findAccount (genesis ?A) (address dummyAccount) = Inr None
      \<and> handlers example_env PREDEPLOY_WIPE dummyAccount ?A = Inl (cannot_read ''code'' ''undefined'')
      \<and> handlers example_env PREDEPLOY_NO_WIPE dummyAccount ?A = Inl (cannot_read ''code'' ''undefined'')
      \<and> \<not> sublist (address dummyAccount) (message (cannot_read ''code'' ''undefined''))
      \<and> handlers example_env PREDEPLOY_ETH dummyAccount ?A = Inl (cannot_read ''code'' ''undefined'')"
    by blast
  from predeploy_handlers_partial [of genesis_account ?B example_env] b2
  have B: "findAccount (dump ?B) (OLD_ETH_ADDRESS example_env) = Inr None
      \<and> handlers example_env PREDEPLOY_ETH genesis_account ?B = Inl (cannot_read ''storage'' ''undefined'')"
    by blast
  from A B a1 b1 show ?thesis by (simp del: handlers.simps findAccount.simps)
qed

text \<open>
  C9 as stated fails where an address is not a 0x-prefixed hex string: \<^verbatim>\<open>hexStringEqual\<close>
  throws before \<^verbatim>\<open>findAccount\<close> can return \<^verbatim>\<open>undefined\<close>. With a genesis entry under a bare
  hex address, the handler fails with that \<^verbatim>\<open>Error\<close>, not with a \<^verbatim>\<open>TypeError\<close>; with an
  account address that is not hex, the error names the account's address.
\<close>

theorem predeploy_handlers_partial_counterexample:
  "toLowerCase (address bare_genesis_account) \<noteq> toLowerCase (address dummyAccount)
   \<and> findAccount [bare_genesis_account] (address dummyAccount)
       = Inl (Error ''not a hex string: 4200000000000000000000000000000000000007'')
   \<and> handlers example_env PREDEPLOY_WIPE dummyAccount
        (example_data\<lparr>genesis := [bare_genesis_account]\<rparr>)
       = Inl (Error ''not a hex string: 4200000000000000000000000000000000000007'')
   \<and> toLowerCase (address genesis_account) \<noteq> toLowerCase ''zz''
   \<and> handlers example_env PREDEPLOY_WIPE (dummyAccount\<lparr>address := ''zz''\<rparr>)
        (example_data\<lparr>genesis := [genesis_account]\<rparr>)
       = Inl (Error ''not a hex string: zz'')
   \<and> sublist ''zz'' (message (Error ''not a hex string: zz''))"
proof -
  have 1: "toLowerCase (address bare_genesis_account) \<noteq> toLowerCase (address dummyAccount)"
    by (simp add: bare_genesis_account_def genesis_account_def dummyAccount_def toLowerCase_def
          lower_char_def)
  have 2: "findAccount [bare_genesis_account] (address dummyAccount)
       = Inl (Error ''not a hex string: 4200000000000000000000000000000000000007'')"
    by (simp add: hexStringEqual_def bare_genesis_account_def genesis_account_def isHexString_def)
  have 3: "toLowerCase (address genesis_account) \<noteq> toLowerCase ''zz''"
    by (simp add: genesis_account_def toLowerCase_def)
  have 4: "findAccount [genesis_account] ''zz'' = Inl (Error ''not a hex string: zz'')"
    by (simp add: hexStringEqual_def example_addresses_hex) (simp add: isHexString_def)
  have 5: "sublist ''zz'' (''not a hex string: '' @ ''zz'')"
    by (rule sublist_append_leftI)
  from 1 2 3 4 5 show ?thesis by (simp add: bind_err_def)
qed

subsection \<open>The dump validator\<close>

lemma bind_err_Inr: "bind_err m f = Inr y \<longleftrightarrow> (\<exists>x. m = Inr x \<and> f x = Inr y)"
  by (cases m) (simp_all add: bind_err_def)























subsection \<open>The source resolver\<close>









subsection \<open>The dump reader\<close>

lemma for_each_append: "for_each f (xs @ ys) s = bind_err (for_each f xs s) (for_each f ys)"
proof (induction xs arbitrary: s)
  case Nil
  show ?case by (simp add: bind_err_def)
next
  case (Cons x xs)
  show ?case
  proof (cases "f x s")
    case (Inl e)
    then show ?thesis by (simp add: bind_err_def)
  next
    case (Inr s')
    with Cons show ?thesis by simp
  qed
qed






















subsection \<open>Immutable relocation\<close>

lemma for_each_fails:
  assumes "x \<in> set xs" and "\<And>s. \<exists>e. f x s = Inl e"
  shows "\<exists>e. for_each f xs s = Inl e"
  using assms(1)
proof (induction xs arbitrary: s)
  case Nil
  then show ?case by simp
next
  case (Cons y ys)
  show ?case
  proof (cases "f y s")
    case (Inl e)
    then show ?thesis by simp
  next
    case (Inr s')
    with assms(2) [of s] have "x \<noteq> y" by auto
    with Cons.prems have "x \<in> set ys" by simp
    from Cons.IH [OF this] Inr show ?thesis by simp
  qed
qed

lemma splice_ref_length_mismatch:
  assumes "i < length ovmValue" and "length_ref ref \<noteq> length_ref (ovmValue ! i)"
  shows "splice_ref E mainOutput ovmObject ovmValue (i, ref) account = Inl (Error ''length mismatch'')"
  using assms by (simp add: splice_ref_def)

lemma splice_ref_size_mismatch:
  assumes "i < length ovmValue" and "length_ref ref = length_ref (ovmValue ! i)"
    and "deployedBytecode mainOutput = Some b"
    and "length (spliced (object b) ref (immutable_value ovmObject (ovmValue ! i)))
           \<noteq> length (object b)"
  shows "splice_ref E mainOutput ovmObject ovmValue (i, ref) account
           = Inl (Error (''mismatch in size: ''
                          @ show_nat (length (spliced (object b) ref
                                                (immutable_value ovmObject (ovmValue ! i))))
                          @ '' vs '' @ show_nat (length (object b))))"
  using assms by (simp add: splice_ref_def Let_def)

lemma splice_key_missing:
  assumes "map_of ovmRefs key = None"
  shows "splice_key E mainOutput ovmObject (Some ovmRefs) (key, val) account
           = Inl (Error ''cannot find ast in ovm compiler output'')"
  using assms by (simp add: splice_key_def)

lemma splice_key_no_table:
  assumes "\<forall>ovmRefs. ovmImmutableRefs = Some ovmRefs \<longrightarrow> map_of ovmRefs key = None"
  shows "\<exists>e. splice_key E mainOutput ovmObject ovmImmutableRefs (key, val) account = Inl e"
  using assms by (cases ovmImmutableRefs) (simp_all add: splice_key_def)

lemma splice_key_occurrence_fails:
  assumes "map_of ovmRefs key = Some ovmValue" and "i < length val"
    and "\<And>s. \<exists>e. splice_ref E mainOutput ovmObject ovmValue (i, val ! i) s = Inl e"
  shows "\<exists>e. splice_key E mainOutput ovmObject (Some ovmRefs) (key, val) account = Inl e"
proof -
  from assms(2) have "(i, val ! i) \<in> set (enumerate 0 val)"
    by (simp add: in_set_enumerate_eq)
  from for_each_fails [OF this, of "splice_ref E mainOutput ovmObject ovmValue"] assms(3)
  have "\<exists>e. for_each (splice_ref E mainOutput ovmObject ovmValue) (enumerate 0 val) account = Inl e"
    by blast
  with assms(1) show ?thesis by (simp add: splice_key_def)
qed

lemma splice_ref_bad_range_fails:
  assumes "i < length ovmValue" and "deployedBytecode mainOutput = Some b"
    and "length (spliced (object b) ref (immutable_value ovmObject (ovmValue ! i)))
           \<noteq> length (object b)"
  shows "\<exists>e. splice_ref E mainOutput ovmObject ovmValue (i, ref) account = Inl e"
proof (cases "length_ref ref = length_ref (ovmValue ! i)")
  case True
  from splice_ref_size_mismatch [OF assms(1) True assms(2,3)] show ?thesis by blast
next
  case False
  from splice_ref_length_mismatch [OF assms(1) False] show ?thesis by blast
qed

text \<open>
  C2. During immutable relocation each of these conditions raises an error. A named
  immutable of the new compilation that the paired compilation's references lack: the loop
  body throws \<^verbatim>\<open>cannot find ast in ovm compiler output\<close>, and the relocation fails. Two
  ranges at the same position whose lengths differ: the body throws \<^verbatim>\<open>length mismatch\<close>, and
  the relocation fails. A spliced bytecode whose length differs from the length of the
  bytecode before the splice: the body throws \<^verbatim>\<open>mismatch in size\<close>, and the relocation
  fails.
\<close>

theorem relocation_failures:
  "(map_of ovmRefs key = None
      \<longrightarrow> splice_key E mainOutput ovmObject (Some ovmRefs) (key, val) account
            = Inl (Error ''cannot find ast in ovm compiler output''))
   \<and> ((key, val) \<in> set immutableRefs
        \<and> (\<forall>ovmRefs. ovmImmutableRefs = Some ovmRefs \<longrightarrow> map_of ovmRefs key = None)
      \<longrightarrow> (\<exists>e. relocate E mainOutput ovmObject ovmImmutableRefs immutableRefs account = Inl e))
   \<and> (i < length ovmValue \<and> length_ref ref \<noteq> length_ref (ovmValue ! i)
      \<longrightarrow> splice_ref E mainOutput ovmObject ovmValue (i, ref) account
            = Inl (Error ''length mismatch''))
   \<and> ((key, val) \<in> set immutableRefs \<and> map_of ovmRefs key = Some ovmValue
        \<and> i < length val \<and> i < length ovmValue
        \<and> length_ref (val ! i) \<noteq> length_ref (ovmValue ! i)
      \<longrightarrow> (\<exists>e. relocate E mainOutput ovmObject (Some ovmRefs) immutableRefs account = Inl e))
   \<and> (i < length ovmValue \<and> length_ref ref = length_ref (ovmValue ! i)
        \<and> deployedBytecode mainOutput = Some b
        \<and> length (spliced (object b) ref (immutable_value ovmObject (ovmValue ! i)))
             \<noteq> length (object b)
      \<longrightarrow> splice_ref E mainOutput ovmObject ovmValue (i, ref) account
            = Inl (Error (''mismatch in size: ''
                           @ show_nat (length (spliced (object b) ref
                                                 (immutable_value ovmObject (ovmValue ! i))))
                           @ '' vs '' @ show_nat (length (object b)))))
   \<and> ((key, val) \<in> set immutableRefs \<and> map_of ovmRefs key = Some ovmValue
        \<and> i < length val \<and> i < length ovmValue
        \<and> deployedBytecode mainOutput = Some b
        \<and> length (spliced (object b) (val ! i) (immutable_value ovmObject (ovmValue ! i)))
             \<noteq> length (object b)
      \<longrightarrow> (\<exists>e. relocate E mainOutput ovmObject (Some ovmRefs) immutableRefs account = Inl e))"
proof (intro conjI impI)
  assume "map_of ovmRefs key = None"
  then show "splice_key E mainOutput ovmObject (Some ovmRefs) (key, val) account
            = Inl (Error ''cannot find ast in ovm compiler output'')"
    by (rule splice_key_missing)
next
  assume h: "(key, val) \<in> set immutableRefs
        \<and> (\<forall>ovmRefs. ovmImmutableRefs = Some ovmRefs \<longrightarrow> map_of ovmRefs key = None)"
  then have "\<And>s. \<exists>e. splice_key E mainOutput ovmObject ovmImmutableRefs (key, val) s = Inl e"
    by (intro splice_key_no_table) simp
  with h show "\<exists>e. relocate E mainOutput ovmObject ovmImmutableRefs immutableRefs account = Inl e"
    unfolding relocate_def by (intro for_each_fails [where x = "(key, val)"]) simp_all
next
  assume "i < length ovmValue \<and> length_ref ref \<noteq> length_ref (ovmValue ! i)"
  then show "splice_ref E mainOutput ovmObject ovmValue (i, ref) account
            = Inl (Error ''length mismatch'')"
    by (simp add: splice_ref_length_mismatch)
next
  assume h: "(key, val) \<in> set immutableRefs \<and> map_of ovmRefs key = Some ovmValue
        \<and> i < length val \<and> i < length ovmValue
        \<and> length_ref (val ! i) \<noteq> length_ref (ovmValue ! i)"
  then have "\<And>s. \<exists>e. splice_ref E mainOutput ovmObject ovmValue (i, val ! i) s = Inl e"
    by (simp add: splice_ref_length_mismatch)
  with h have "\<And>s. \<exists>e. splice_key E mainOutput ovmObject (Some ovmRefs) (key, val) s = Inl e"
    by (intro splice_key_occurrence_fails [where i = i and ovmValue = ovmValue]) simp_all
  with h show "\<exists>e. relocate E mainOutput ovmObject (Some ovmRefs) immutableRefs account = Inl e"
    unfolding relocate_def by (intro for_each_fails [where x = "(key, val)"]) simp_all
next
  assume "i < length ovmValue \<and> length_ref ref = length_ref (ovmValue ! i)
        \<and> deployedBytecode mainOutput = Some b
        \<and> length (spliced (object b) ref (immutable_value ovmObject (ovmValue ! i)))
             \<noteq> length (object b)"
  then show "splice_ref E mainOutput ovmObject ovmValue (i, ref) account
            = Inl (Error (''mismatch in size: ''
                           @ show_nat (length (spliced (object b) ref
                                                 (immutable_value ovmObject (ovmValue ! i))))
                           @ '' vs '' @ show_nat (length (object b))))"
    by (simp add: splice_ref_size_mismatch)
next
  assume h: "(key, val) \<in> set immutableRefs \<and> map_of ovmRefs key = Some ovmValue
        \<and> i < length val \<and> i < length ovmValue
        \<and> deployedBytecode mainOutput = Some b
        \<and> length (spliced (object b) (val ! i) (immutable_value ovmObject (ovmValue ! i)))
             \<noteq> length (object b)"
  then have "\<And>s. \<exists>e. splice_ref E mainOutput ovmObject ovmValue (i, val ! i) s = Inl e"
    by (intro splice_ref_bad_range_fails [where b = b]) simp_all
  with h have "\<And>s. \<exists>e. splice_key E mainOutput ovmObject (Some ovmRefs) (key, val) s = Inl e"
    by (intro splice_key_occurrence_fails [where i = i and ovmValue = ovmValue]) simp_all
  with h show "\<exists>e. relocate E mainOutput ovmObject (Some ovmRefs) immutableRefs account = Inl e"
    unfolding relocate_def by (intro for_each_fails [where x = "(key, val)"]) simp_all
qed
lemma example_spliced_too_long:
  "spliced (object new_bytecode) \<lparr>start = 9, length_ref = 2\<rparr>
     (immutable_value (object ovm_bytecode) \<lparr>start = 6, length_ref = 2\<rparr>) = ''0x0000000cc''"
  by (simp add: spliced_def immutable_value_def slice_def slice_from_def slice_index_def
        new_bytecode_def ovm_bytecode_def)

lemma show_nat_examples: "show_nat 11 = ''11''" "show_nat 10 = ''10''"
  by (simp_all add: show_nat.simps digit_char_def)

theorem relocation_failures_witness:
  "map_of [(''7'', [\<lparr>start = 2, length_ref = 2\<rparr>, \<lparr>start = 6, length_ref = 2\<rparr>])] ''8'' = None
   \<and> splice_key example_env \<lparr>deployedBytecode = Some new_bytecode\<rparr> (object ovm_bytecode)
        (Some [(''7'', [\<lparr>start = 2, length_ref = 2\<rparr>, \<lparr>start = 6, length_ref = 2\<rparr>])])
        (''8'', []) dummyAccount
       = Inl (Error ''cannot find ast in ovm compiler output'')
   \<and> (\<exists>e. relocate example_env \<lparr>deployedBytecode = Some new_bytecode\<rparr> (object ovm_bytecode)
        (Some [(''7'', [\<lparr>start = 2, length_ref = 2\<rparr>, \<lparr>start = 6, length_ref = 2\<rparr>])])
        [(''7'', [\<lparr>start = 2, length_ref = 2\<rparr>, \<lparr>start = 6, length_ref = 2\<rparr>]), (''8'', [])]
        dummyAccount = Inl e)
   \<and> splice_ref example_env \<lparr>deployedBytecode = Some new_bytecode\<rparr> (object ovm_bytecode)
        [\<lparr>start = 2, length_ref = 2\<rparr>, \<lparr>start = 6, length_ref = 2\<rparr>]
        (1, \<lparr>start = 6, length_ref = 1\<rparr>) dummyAccount
       = Inl (Error ''length mismatch'')
   \<and> (\<exists>e. relocate example_env \<lparr>deployedBytecode = Some new_bytecode\<rparr> (object ovm_bytecode)
        (Some [(''7'', [\<lparr>start = 2, length_ref = 2\<rparr>, \<lparr>start = 6, length_ref = 2\<rparr>])])
        [(''7'', [\<lparr>start = 2, length_ref = 2\<rparr>, \<lparr>start = 6, length_ref = 1\<rparr>])]
        dummyAccount = Inl e)
   \<and> splice_ref example_env \<lparr>deployedBytecode = Some new_bytecode\<rparr> (object ovm_bytecode)
        [\<lparr>start = 2, length_ref = 2\<rparr>, \<lparr>start = 6, length_ref = 2\<rparr>]
        (1, \<lparr>start = 9, length_ref = 2\<rparr>) dummyAccount
       = Inl (Error ''mismatch in size: 11 vs 10'')
   \<and> (\<exists>e. relocate example_env \<lparr>deployedBytecode = Some new_bytecode\<rparr> (object ovm_bytecode)
        (Some [(''7'', [\<lparr>start = 2, length_ref = 2\<rparr>, \<lparr>start = 6, length_ref = 2\<rparr>])])
        [(''7'', [\<lparr>start = 2, length_ref = 2\<rparr>, \<lparr>start = 9, length_ref = 2\<rparr>])]
        dummyAccount = Inl e)"
proof -
  let ?mo = "\<lparr>deployedBytecode = Some new_bytecode\<rparr>"
  let ?r0 = "\<lparr>start = 2, length_ref = 2\<rparr>"
  let ?r1 = "\<lparr>start = 6, length_ref = 2\<rparr>"
  let ?short = "\<lparr>start = 6, length_ref = 1\<rparr>"
  let ?far = "\<lparr>start = 9, length_ref = 2\<rparr>"
  let ?ovm = "[(''7'', [?r0, ?r1])]"
  have len: "length (object new_bytecode) = 10" by (simp add: new_bytecode_def)
  \<comment> \<open>a name that the paired references lack\<close>
  note a = relocation_failures [where E = example_env and mainOutput = ?mo
      and ovmObject = "object ovm_bytecode" and account = dummyAccount
      and ovmRefs = ?ovm and key = "''8''" and val = "[]"
      and immutableRefs = "[(''7'', [?r0, ?r1]), (''8'', [])]" and ovmImmutableRefs = "Some ?ovm"]
  have a0: "map_of ?ovm ''8'' = None" by simp
  from a a0 have a1: "splice_key example_env ?mo (object ovm_bytecode) (Some ?ovm) (''8'', [])
        dummyAccount = Inl (Error ''cannot find ast in ovm compiler output'')"
    by blast
  have "(''8'', []) \<in> set [(''7'', [?r0, ?r1]), (''8'', [])]
        \<and> (\<forall>ovmRefs. Some ?ovm = Some ovmRefs \<longrightarrow> map_of ovmRefs ''8'' = None)"
    by simp
  with a have a2: "\<exists>e. relocate example_env ?mo (object ovm_bytecode) (Some ?ovm)
        [(''7'', [?r0, ?r1]), (''8'', [])] dummyAccount = Inl e"
    by blast
  \<comment> \<open>a range of another length at the same position\<close>
  note b = relocation_failures [where E = example_env and mainOutput = ?mo
      and ovmObject = "object ovm_bytecode" and account = dummyAccount
      and ovmRefs = ?ovm and key = "''7''" and val = "[?r0, ?short]"
      and immutableRefs = "[(''7'', [?r0, ?short])]" and ovmValue = "[?r0, ?r1]"
      and i = 1 and ref = ?short]
  have b0: "1 < length [?r0, ?r1] \<and> length_ref ?short \<noteq> length_ref ([?r0, ?r1] ! 1)"
    by simp
  with b have b1: "splice_ref example_env ?mo (object ovm_bytecode) [?r0, ?r1] (1, ?short)
        dummyAccount = Inl (Error ''length mismatch'')"
    by blast
  have "(''7'', [?r0, ?short]) \<in> set [(''7'', [?r0, ?short])]
        \<and> map_of ?ovm ''7'' = Some [?r0, ?r1]
        \<and> 1 < length [?r0, ?short] \<and> 1 < length [?r0, ?r1]
        \<and> length_ref ([?r0, ?short] ! 1) \<noteq> length_ref ([?r0, ?r1] ! 1)"
    by simp
  with b have b2: "\<exists>e. relocate example_env ?mo (object ovm_bytecode) (Some ?ovm)
        [(''7'', [?r0, ?short])] dummyAccount = Inl e"
    by blast
  \<comment> \<open>a range that reaches beyond the bytecode\<close>
  note c = relocation_failures [where E = example_env and mainOutput = ?mo
      and ovmObject = "object ovm_bytecode" and account = dummyAccount
      and ovmRefs = ?ovm and key = "''7''" and val = "[?r0, ?far]"
      and immutableRefs = "[(''7'', [?r0, ?far])]" and ovmValue = "[?r0, ?r1]"
      and i = 1 and ref = ?far and b = new_bytecode]
  have c0: "1 < length [?r0, ?r1] \<and> length_ref ?far = length_ref ([?r0, ?r1] ! 1)
        \<and> deployedBytecode ?mo = Some new_bytecode
        \<and> length (spliced (object new_bytecode) ?far
                     (immutable_value (object ovm_bytecode) ([?r0, ?r1] ! 1)))
             \<noteq> length (object new_bytecode)"
    by (simp add: example_spliced_too_long len)
  with c have "splice_ref example_env ?mo (object ovm_bytecode) [?r0, ?r1] (1, ?far) dummyAccount
        = Inl (Error (''mismatch in size: ''
                @ show_nat (length (spliced (object new_bytecode) ?far
                      (immutable_value (object ovm_bytecode) ([?r0, ?r1] ! 1))))
                @ '' vs '' @ show_nat (length (object new_bytecode))))"
    by blast
  moreover have "length (spliced (object new_bytecode) ?far
                     (immutable_value (object ovm_bytecode) ?r1)) = 11"
    by (simp add: example_spliced_too_long)
  ultimately have c1: "splice_ref example_env ?mo (object ovm_bytecode) [?r0, ?r1] (1, ?far) dummyAccount
        = Inl (Error ''mismatch in size: 11 vs 10'')"
    by (simp add: len show_nat_examples)
  have "(''7'', [?r0, ?far]) \<in> set [(''7'', [?r0, ?far])]
        \<and> map_of ?ovm ''7'' = Some [?r0, ?r1]
        \<and> 1 < length [?r0, ?far] \<and> 1 < length [?r0, ?r1]
        \<and> deployedBytecode ?mo = Some new_bytecode
        \<and> length (spliced (object new_bytecode) ([?r0, ?far] ! 1)
                     (immutable_value (object ovm_bytecode) ([?r0, ?r1] ! 1)))
             \<noteq> length (object new_bytecode)"
    by (simp add: example_spliced_too_long len)
  with c have c2: "\<exists>e. relocate example_env ?mo (object ovm_bytecode) (Some ?ovm)
        [(''7'', [?r0, ?far])] dummyAccount = Inl e"
    by blast
  from a0 a1 a2 b1 b2 c1 c2 show ?thesis by blast
qed

subsection \<open>Failures of the VERIFIED handler\<close>

lemma find_contract_address:
  assumes "find (\<lambda>c. contractAddress c = a) cs = Some contract"
  shows "contractAddress contract = a"
  using assms by (auto simp add: find_Some_iff)

lemma select_contract_key:
  "select_contract contract output
     = index2 output (case contractFileName contract of
                        None \<Rightarrow> ''file''
                      | Some f \<Rightarrow> if f \<noteq> [] then f else ''file'')
         (contractName contract)"
  by (simp add: select_contract_def split: option.splits)

text \<open>
  C3 (as amended). The VERIFIED handler fails with an error in each of these cases. The
  error message contains the account's address when the account is absent from the archived
  dataset, when the compiler response has no \<^verbatim>\<open>contracts\<close>, and when the response has the
  selected file (the recorded file name, or \<^verbatim>\<open>file\<close> when none is recorded) but not the
  contract name in it. When the recorded compiler version has no mapping (or an empty one),
  the message names the recorded compiler version.
\<close>

theorem verified_failures:
  "(find (\<lambda>c. contractAddress c = address account) (etherscanDump data) = None
      \<longrightarrow> handlers E VERIFIED account data
            = Inl (Error (''Unable to find '' @ address account @ '' in etherscan dump''))
          \<and> sublist (address account)
               (message (Error (''Unable to find '' @ address account @ '' in etherscan dump''))))
   \<and> (find (\<lambda>c. contractAddress c = address account) (etherscanDump data) = Some contract
        \<and> (\<forall>v. COMPILER_VERSIONS_TO_SOLC E (compilerVersion contract) = Some v \<longrightarrow> v = [])
      \<longrightarrow> handlers E VERIFIED account data
            = Inl (Error (''Unable to find solc version '' @ compilerVersion contract)))
   \<and> (find (\<lambda>c. contractAddress c = address account) (etherscanDump data) = Some contract
        \<and> COMPILER_VERSIONS_TO_SOLC E (compilerVersion contract) = Some version \<and> version \<noteq> []
        \<and> solc_compile E version (solcInput E contract) = Inr output
        \<and> contracts output = None
      \<longrightarrow> handlers E VERIFIED account data = Inl (Error (''Cannot compile '' @ address account))
          \<and> sublist (address account) (message (Error (''Cannot compile '' @ address account))))
   \<and> (find (\<lambda>c. contractAddress c = address account) (etherscanDump data) = Some contract
        \<and> COMPILER_VERSIONS_TO_SOLC E (compilerVersion contract) = Some version \<and> version \<noteq> []
        \<and> solc_compile E version (solcInput E contract) = Inr output
        \<and> contracts output = Some cs
        \<and> map_of cs (case contractFileName contract of
                        None \<Rightarrow> ''file''
                      | Some f \<Rightarrow> if f \<noteq> [] then f else ''file'') = Some file
        \<and> map_of file (contractName contract) = None
      \<longrightarrow> handlers E VERIFIED account data
            = Inl (Error (''Contract filename mismatch: '' @ address account))
          \<and> sublist (address account)
               (message (Error (''Contract filename mismatch: '' @ address account))))"
proof (intro conjI impI)
  assume "find (\<lambda>c. contractAddress c = address account) (etherscanDump data) = None"
  then show "handlers E VERIFIED account data
            = Inl (Error (''Unable to find '' @ address account @ '' in etherscan dump''))"
    by (simp add: verified_def)
next
  show "sublist (address account)
          (message (Error (''Unable to find '' @ address account @ '' in etherscan dump'')))"
    unfolding message.simps by (rule sublist_appendI)
next
  assume h: "find (\<lambda>c. contractAddress c = address account) (etherscanDump data) = Some contract
        \<and> (\<forall>v. COMPILER_VERSIONS_TO_SOLC E (compilerVersion contract) = Some v \<longrightarrow> v = [])"
  then have f: "find (\<lambda>c. contractAddress c = address account) (etherscanDump data) = Some contract"
    by simp
  from h have "(case COMPILER_VERSIONS_TO_SOLC E (compilerVersion contract) of
                None \<Rightarrow> None | Some v \<Rightarrow> if v = [] then None else Some v) = None"
    by (cases "COMPILER_VERSIONS_TO_SOLC E (compilerVersion contract)") simp_all
  with f show "handlers E VERIFIED account data
            = Inl (Error (''Unable to find solc version '' @ compilerVersion contract))"
    by (simp add: verified_def)
next
  assume h: "find (\<lambda>c. contractAddress c = address account) (etherscanDump data) = Some contract
        \<and> COMPILER_VERSIONS_TO_SOLC E (compilerVersion contract) = Some version \<and> version \<noteq> []
        \<and> solc_compile E version (solcInput E contract) = Inr output
        \<and> contracts output = None"
  then have "find (\<lambda>c. contractAddress c = address account) (etherscanDump data) = Some contract"
    by simp
  then have "contractAddress contract = address account"
    by (rule find_contract_address)
  with h have "verified_output E contract (solcInput E contract) output account
                 = Inl (Error (''Cannot compile '' @ address account))"
    by (simp add: verified_output_def)
  with h show "handlers E VERIFIED account data = Inl (Error (''Cannot compile '' @ address account))"
    by (simp add: verified_def bind_err_def)
next
  show "sublist (address account) (message (Error (''Cannot compile '' @ address account)))"
    unfolding message.simps by (rule sublist_append_leftI)
next
  assume h: "find (\<lambda>c. contractAddress c = address account) (etherscanDump data) = Some contract
        \<and> COMPILER_VERSIONS_TO_SOLC E (compilerVersion contract) = Some version \<and> version \<noteq> []
        \<and> solc_compile E version (solcInput E contract) = Inr output
        \<and> contracts output = Some cs
        \<and> map_of cs (case contractFileName contract of
                        None \<Rightarrow> ''file''
                      | Some f \<Rightarrow> if f \<noteq> [] then f else ''file'') = Some file
        \<and> map_of file (contractName contract) = None"
  then have "find (\<lambda>c. contractAddress c = address account) (etherscanDump data) = Some contract"
    by simp
  then have a: "contractAddress contract = address account"
    by (rule find_contract_address)
  from h have "select_contract contract output = Inr None"
    by (simp add: select_contract_key index2_def)
  with h a have "verified_output E contract (solcInput E contract) output account
                 = Inl (Error (''Contract filename mismatch: '' @ address account))"
    by (simp add: verified_output_def bind_err_def)
  with h show "handlers E VERIFIED account data
            = Inl (Error (''Contract filename mismatch: '' @ address account))"
    by (simp add: verified_def bind_err_def)
next
  show "sublist (address account)
          (message (Error (''Contract filename mismatch: '' @ address account)))"
    unfolding message.simps by (rule sublist_append_leftI)
qed
lemma example_find_contract:
  "find (\<lambda>c. contractAddress c = address dummyAccount) (etherscanDump verified_data)
     = Some example_contract"
  by (simp add: verified_data_def example_contract_def dummyAccount_def)

lemma example_address: "address dummyAccount = ''0x0000000000000000000000000000000000000420''"
  by (simp add: dummyAccount_def)

theorem verified_failures_witness:
  "find (\<lambda>c. contractAddress c = address dummyAccount) (etherscanDump example_data) = None
   \<and> handlers example_env VERIFIED dummyAccount example_data
       = Inl (Error ''Unable to find 0x0000000000000000000000000000000000000420 in etherscan dump'')
   \<and> find (\<lambda>c. contractAddress c = address dummyAccount) (etherscanDump verified_data)
       = Some example_contract
   \<and> COMPILER_VERSIONS_TO_SOLC example_env (compilerVersion example_contract) = None
   \<and> handlers example_env VERIFIED dummyAccount verified_data
       = Inl (Error ''Unable to find solc version v0.6.12'')
   \<and> handlers (compiler_env\<lparr>solc_compile := (\<lambda>version input. Inr \<lparr>contracts = None\<rparr>)\<rparr>)
        VERIFIED dummyAccount verified_data
       = Inl (Error ''Cannot compile 0x0000000000000000000000000000000000000420'')
   \<and> handlers compiler_env VERIFIED dummyAccount
        (example_data\<lparr>etherscanDump := [example_contract\<lparr>contractName := ''D''\<rparr>]\<rparr>)
       = Inl (Error ''Contract filename mismatch: 0x0000000000000000000000000000000000000420'')
   \<and> sublist (address dummyAccount)
        (message (Error ''Cannot compile 0x0000000000000000000000000000000000000420''))"
proof -
  let ?nocontracts = "compiler_env\<lparr>solc_compile := (\<lambda>version input. Inr \<lparr>contracts = None\<rparr>)\<rparr>"
  let ?D = "example_contract\<lparr>contractName := ''D''\<rparr>"
  let ?dataD = "example_data\<lparr>etherscanDump := [?D]\<rparr>"
  let ?v = "''v0.6.12+commit.27d51765''"
  let ?file = "[(''C'', \<lparr>deployedBytecode = Some new_bytecode\<rparr>)]"
  have n: "find (\<lambda>c. contractAddress c = address dummyAccount) (etherscanDump example_data) = None"
    by (simp add: example_data_def)
  have u: "COMPILER_VERSIONS_TO_SOLC example_env (compilerVersion example_contract) = None"
    by (simp add: example_env_def)
  have k: "COMPILER_VERSIONS_TO_SOLC compiler_env (compilerVersion example_contract) = Some ?v"
    "COMPILER_VERSIONS_TO_SOLC ?nocontracts (compilerVersion example_contract) = Some ?v"
    "COMPILER_VERSIONS_TO_SOLC compiler_env (compilerVersion ?D) = Some ?v"
    by (simp_all add: compiler_env_def example_contract_def)
  have fD: "find (\<lambda>c. contractAddress c = address dummyAccount) (etherscanDump ?dataD) = Some ?D"
    by (simp add: example_contract_def dummyAccount_def)
  have cD: "solc_compile compiler_env ?v (solcInput compiler_env ?D)
              = Inr \<lparr>contracts = Some [(''file'', ?file)]\<rparr>"
    by (simp add: compiler_env_def example_compile_def)
  have mD: "map_of [(''file'', ?file)]
              (case contractFileName ?D of None \<Rightarrow> ''file''
               | Some f \<Rightarrow> if f \<noteq> [] then f else ''file'') = Some ?file
            \<and> map_of ?file (contractName ?D) = None"
    by (simp add: example_contract_def)
  have cN: "solc_compile ?nocontracts ?v (solcInput ?nocontracts example_contract)
              = Inr \<lparr>contracts = None\<rparr>"
    by simp
  from verified_failures [where E = example_env and account = dummyAccount
         and data = example_data] n
  have 1: "handlers example_env VERIFIED dummyAccount example_data
       = Inl (Error (''Unable to find '' @ address dummyAccount @ '' in etherscan dump''))"
    by blast
  from verified_failures [where E = example_env and account = dummyAccount
         and data = verified_data and contract = example_contract] example_find_contract u
  have 2: "handlers example_env VERIFIED dummyAccount verified_data
       = Inl (Error (''Unable to find solc version '' @ compilerVersion example_contract))"
    by simp
  from verified_failures [where E = ?nocontracts and account = dummyAccount
         and data = verified_data and contract = example_contract and version = ?v
         and ?output = "\<lparr>contracts = None\<rparr>"] example_find_contract k(2) cN
  have 3: "handlers ?nocontracts VERIFIED dummyAccount verified_data
       = Inl (Error (''Cannot compile '' @ address dummyAccount))
       \<and> sublist (address dummyAccount) (message (Error (''Cannot compile '' @ address dummyAccount)))"
    by simp
  from verified_failures [where E = compiler_env and account = dummyAccount
         and data = ?dataD and contract = ?D and version = ?v
         and ?output = "\<lparr>contracts = Some [(''file'', ?file)]\<rparr>"
         and cs = "[(''file'', ?file)]" and ?file = ?file] fD k(3) cD mD
  have 4: "handlers compiler_env VERIFIED dummyAccount ?dataD
       = Inl (Error (''Contract filename mismatch: '' @ address dummyAccount))"
    by simp
  have v: "compilerVersion example_contract = ''v0.6.12''"
    by (simp add: example_contract_def)
  from n 1 example_find_contract u 2 3 4 show ?thesis
    by (simp only: example_address v) simp
qed

text \<open>
  C3 as stated fails for the unknown compiler version: the message names the version, not
  the address. It also fails when the compiler response lacks the selected file altogether:
  the lookup of the contract name in \<^verbatim>\<open>undefined\<close> throws a \<^verbatim>\<open>TypeError\<close> before the
  handler's own check.
\<close>

theorem verified_failures_counterexample:
  "handlers example_env VERIFIED dummyAccount verified_data
     = Inl (Error ''Unable to find solc version v0.6.12'')
   \<and> \<not> sublist (address dummyAccount) (message (Error ''Unable to find solc version v0.6.12''))
   \<and> handlers compiler_env VERIFIED dummyAccount
        (example_data\<lparr>etherscanDump := [example_contract\<lparr>contractFileName := Some ''A.sol''\<rparr>]\<rparr>)
       = Inl (cannot_read ''C'' ''undefined'')
   \<and> \<not> sublist (address dummyAccount) (message (cannot_read ''C'' ''undefined''))"
proof -
  let ?A = "example_contract\<lparr>contractFileName := Some ''A.sol''\<rparr>"
  let ?v = "''v0.6.12+commit.27d51765''"
  have 1: "handlers example_env VERIFIED dummyAccount verified_data
     = Inl (Error ''Unable to find solc version v0.6.12'')"
    by (simp add: verified_def example_find_contract)
       (simp add: example_env_def example_contract_def)
  have "CHR ''x'' \<in> set (address dummyAccount)" by (simp add: dummyAccount_def)
  moreover have "CHR ''x'' \<notin> set ''Unable to find solc version v0.6.12''" by simp
  ultimately have 2: "\<not> sublist (address dummyAccount)
                          (message (Error ''Unable to find solc version v0.6.12''))"
    using set_mono_sublist [of "address dummyAccount" "''Unable to find solc version v0.6.12''"]
    by auto
  have f: "find (\<lambda>c. contractAddress c = address dummyAccount) [?A] = Some ?A"
    by (simp add: example_contract_def dummyAccount_def)
  have k: "COMPILER_VERSIONS_TO_SOLC compiler_env (compilerVersion ?A) = Some ?v"
    by (simp add: compiler_env_def example_contract_def)
  have c: "solc_compile compiler_env ?v (solcInput compiler_env ?A)
             = Inr \<lparr>contracts = Some [(''file'', [(''C'', \<lparr>deployedBytecode = Some new_bytecode\<rparr>)])]\<rparr>"
    by (simp add: compiler_env_def example_compile_def)
  have s: "select_contract ?A
             \<lparr>contracts = Some [(''file'', [(''C'', \<lparr>deployedBytecode = Some new_bytecode\<rparr>)])]\<rparr>
           = Inl (cannot_read ''C'' ''undefined'')"
    by (simp add: select_contract_def index2_def example_contract_def)
  from f k c s have 3: "handlers compiler_env VERIFIED dummyAccount
        (example_data\<lparr>etherscanDump := [?A]\<rparr>) = Inl (cannot_read ''C'' ''undefined'')"
    by (simp add: verified_def verified_output_def bind_err_def)
  have 4: "\<not> sublist (address dummyAccount) (message (cannot_read ''C'' ''undefined''))"
    by (rule hex_not_in_type_error) (simp_all add: example_addresses_hex)
  from 1 2 3 4 show ?thesis by blast
qed

subsection \<open>What the splice loop leaves in the account\<close>

lemma for_each_invariant:
  assumes step: "\<And>x s s'. f x s = Inr s' \<Longrightarrow> P s \<Longrightarrow> P s'"
    and "for_each f xs s = Inr s'" and "P s"
  shows "P s'"
  using assms(2,3)
proof (induction xs arbitrary: s)
  case Nil
  then show ?case by simp
next
  case (Cons x xs)
  show ?case
  proof (cases "f x s")
    case (Inl e)
    with Cons.prems(1) show ?thesis by simp
  next
    case (Inr t)
    from Inr Cons.prems(2) have "P t" by (rule step)
    moreover from Inr Cons.prems(1) have "for_each f xs t = Inr s'" by simp
    ultimately show ?thesis by (rule Cons.IH [rotated])
  qed
qed

lemma splice_ref_Inr:
  assumes "splice_ref E mainOutput ovmObject ovmValue (i, ref) a = Inr a'"
    and "deployedBytecode mainOutput = Some b"
  shows "code a' = Some (spliced (object b) ref (immutable_value ovmObject (ovmValue ! i)))"
    and "length (spliced (object b) ref (immutable_value ovmObject (ovmValue ! i)))
           = length (object b)"
proof -
  let ?bytecode = "spliced (object b) ref (immutable_value ovmObject (ovmValue ! i))"
  from assms have ok: "i < length ovmValue" "length_ref ref = length_ref (ovmValue ! i)"
    "length ?bytecode = length (object b)"
    by (auto simp add: splice_ref_def Let_def split: if_splits)
  then show "length ?bytecode = length (object b)" by simp
  from assms ok obtain h where "keccak256 E ?bytecode = Inr h"
    and "a' = a\<lparr>code := Some ?bytecode, codeHash := h\<rparr>"
    by (cases "keccak256 E ?bytecode") (auto simp add: splice_ref_def Let_def bind_err_def)
  then show "code a' = Some ?bytecode" by simp
qed

text \<open>
  What holds of the loop in general: a relocation that succeeds leaves a code of the length
  of the newly compiled bytecode; and the code after the occurrences of one name is the
  newly compiled bytecode with the last occurrence alone spliced in.
\<close>

lemma relocate_preserves_length:
  assumes "relocate E mainOutput ovmObject ovmImmutableRefs immutableRefs a = Inr a'"
    and "deployedBytecode mainOutput = Some b"
    and "code a = Some (object b)"
  shows "\<exists>c. code a' = Some c \<and> length c = length (object b)"
proof -
  let ?P = "\<lambda>s. \<exists>c. code s = Some c \<and> length c = length (object b)"
  have inner: "?P s'" if "splice_ref E mainOutput ovmObject ovmValue x s = Inr s'"
    for ovmValue x s s'
    using splice_ref_Inr [of E mainOutput ovmObject ovmValue "fst x" "snd x" s s' b] that assms(2)
    by simp
  have outer: "?P s'" if "splice_key E mainOutput ovmObject ovmImmutableRefs x s = Inr s'" "?P s"
    for x s s'
  proof -
    from that(1) obtain ovmValue where
      "for_each (splice_ref E mainOutput ovmObject ovmValue) (enumerate 0 (snd x)) s = Inr s'"
      by (auto simp add: splice_key_def Let_def split: option.splits)
    from for_each_invariant [where P = ?P, OF _ this that(2)] inner show ?thesis by blast
  qed
  from assms(3) have "?P a" by simp
  from for_each_invariant [where P = ?P, OF _ assms(1) [unfolded relocate_def] this] outer
  show ?thesis by blast
qed

lemma last_occurrence_only:
  assumes "for_each (splice_ref E mainOutput ovmObject ovmValue) (enumerate 0 (val @ [ref])) a
             = Inr a'"
    and "deployedBytecode mainOutput = Some b"
  shows "code a' = Some (spliced (object b) ref (immutable_value ovmObject (ovmValue ! length val)))"
proof -
  have "enumerate 0 (val @ [ref]) = enumerate 0 val @ [(length val, ref)]"
    by (simp add: enumerate_append_eq)
  with assms(1) obtain s where
    "splice_ref E mainOutput ovmObject ovmValue (length val, ref) s = Inr a'"
    by (cases "for_each (splice_ref E mainOutput ovmObject ovmValue) (enumerate 0 val) a";
        cases "splice_ref E mainOutput ovmObject ovmValue (length val, ref)
                 (projr (for_each (splice_ref E mainOutput ovmObject ovmValue) (enumerate 0 val) a))")
       (auto simp add: for_each_append bind_err_def)
  from splice_ref_Inr(1) [OF this assms(2)] show ?thesis .
qed

lemma example_versions:
  "COMPILER_VERSIONS_TO_SOLC compiler_env (compilerVersion example_contract)
     = Some ''v0.6.12+commit.27d51765''"
  by (simp add: compiler_env_def example_contract_def)

lemma example_compile_new:
  "solc_compile compiler_env ''v0.6.12+commit.27d51765'' input
     = Inr \<lparr>contracts = Some [(''file'', [(''C'', \<lparr>deployedBytecode = Some new_bytecode\<rparr>)])]\<rparr>"
  by (simp add: compiler_env_def example_compile_def)

lemma example_compile_ovm:
  "solc_compile compiler_env (compilerVersion example_contract) input
     = Inr \<lparr>contracts = Some [(''file'', [(''C'', \<lparr>deployedBytecode = Some ovm_bytecode\<rparr>)])]\<rparr>"
  by (simp add: compiler_env_def example_compile_def example_contract_def)

lemma example_select:
  "select_contract example_contract \<lparr>contracts = Some [(''file'', [(''C'', out)])]\<rparr> = Inr (Some out)"
  by (simp add: select_contract_def index2_def example_contract_def)

lemma example_keccak:
  "keccak256 compiler_env (add0x compiler_env ''0x00000000'') = Inr ''0xdigest_of_00000000''"
  "keccak256 compiler_env ''0xaa000000'' = Inr ''0xdigest_of_aa000000''"
  "keccak256 compiler_env ''0x0000cc00'' = Inr ''0xdigest_of_0000cc00''"
  by (simp_all add: compiler_env_def example_env_def example_keccak256_def example_add0x_def
        startsWith_def isHexString_def is_hex_digit_def)

lemma example_splices:
  "immutable_value ''0xaabbccdd'' \<lparr>start = 2, length_ref = 2\<rparr> = ''aa''"
  "immutable_value ''0xaabbccdd'' \<lparr>start = 6, length_ref = 2\<rparr> = ''cc''"
  "spliced ''0x00000000'' \<lparr>start = 2, length_ref = 2\<rparr> ''aa'' = ''0xaa000000''"
  "spliced ''0x00000000'' \<lparr>start = 6, length_ref = 2\<rparr> ''cc'' = ''0x0000cc00''"
  "spliced ''0xaa000000'' \<lparr>start = 6, length_ref = 2\<rparr> ''cc'' = ''0xaa00cc00''"
  by (simp_all add: immutable_value_def spliced_def slice_def slice_from_def slice_index_def)

lemma example_first_splice:
  "splice_ref compiler_env \<lparr>deployedBytecode = Some new_bytecode\<rparr> ''0xaabbccdd''
     [\<lparr>start = 2, length_ref = 2\<rparr>, \<lparr>start = 6, length_ref = 2\<rparr>]
     (0, \<lparr>start = 2, length_ref = 2\<rparr>) a
   = Inr (a\<lparr>code := Some ''0xaa000000'', codeHash := ''0xdigest_of_aa000000''\<rparr>)"
  by (simp add: splice_ref_def new_bytecode_def example_splices example_keccak bind_err_def)

lemma example_second_splice:
  "splice_ref compiler_env \<lparr>deployedBytecode = Some new_bytecode\<rparr> ''0xaabbccdd''
     [\<lparr>start = 2, length_ref = 2\<rparr>, \<lparr>start = 6, length_ref = 2\<rparr>]
     (Suc 0, \<lparr>start = 6, length_ref = 2\<rparr>) a
   = Inr (a\<lparr>code := Some ''0x0000cc00'', codeHash := ''0xdigest_of_0000cc00''\<rparr>)"
  by (simp add: splice_ref_def new_bytecode_def example_splices example_keccak bind_err_def)

lemma example_relocate:
  "relocate_immutables compiler_env example_contract input \<lparr>deployedBytecode = Some new_bytecode\<rparr>
     [(''7'', [\<lparr>start = 2, length_ref = 2\<rparr>, \<lparr>start = 6, length_ref = 2\<rparr>])] a
   = Inr (a\<lparr>code := Some ''0x0000cc00'', codeHash := ''0xdigest_of_0000cc00''\<rparr>)"
  by (simp add: relocate_immutables_def example_compile_ovm example_select bind_err_def
        relocate_def splice_key_def ovm_bytecode_def example_first_splice example_second_splice)

text \<open>
  C1, at an input where the code departs from it. The contract has one immutable with two
  occurrences, at the characters 2 to 3 and 6 to 7; the paired bytecode holds \<^verbatim>\<open>aa\<close> and
  \<^verbatim>\<open>cc\<close> there. The handler returns the code \<^verbatim>\<open>0x0000cc00\<close>: the second splice is made on
  the unspliced bytecode of \<^verbatim>\<open>mainOutput\<close>, not on the result of the first, so the range of
  the first occurrence holds \<^verbatim>\<open>00\<close>, not \<^verbatim>\<open>aa\<close>. Splicing the result of the first splice
  would give \<^verbatim>\<open>0xaa00cc00\<close>.
\<close>

theorem relocation_keeps_last_splice_only:
  "handlers compiler_env VERIFIED dummyAccount verified_data
     = Inr (Some (dummyAccount\<lparr>code := Some ''0x0000cc00'', codeHash := ''0xdigest_of_0000cc00''\<rparr>))
   \<and> immutableReferences new_bytecode
       = Some [(''7'', [\<lparr>start = 2, length_ref = 2\<rparr>, \<lparr>start = 6, length_ref = 2\<rparr>])]
   \<and> immutable_value (object ovm_bytecode) \<lparr>start = 2, length_ref = 2\<rparr> = ''aa''
   \<and> slice ''0x0000cc00'' 2 (2 + 2) = ''00''
   \<and> immutable_value (object ovm_bytecode) \<lparr>start = 6, length_ref = 2\<rparr> = ''cc''
   \<and> slice ''0x0000cc00'' 6 (6 + 2) = ''cc''
   \<and> spliced (spliced (object new_bytecode) \<lparr>start = 2, length_ref = 2\<rparr> ''aa'')
        \<lparr>start = 6, length_ref = 2\<rparr> ''cc'' = ''0xaa00cc00''"
proof -
  have o: "object new_bytecode = ''0x00000000''"
    and r: "immutableReferences new_bytecode
              = Some [(''7'', [\<lparr>start = 2, length_ref = 2\<rparr>, \<lparr>start = 6, length_ref = 2\<rparr>])]"
    by (simp_all add: new_bytecode_def)
  have "verified_artifact compiler_env example_contract input
          \<lparr>deployedBytecode = Some new_bytecode\<rparr> dummyAccount
        = Inr (Some (dummyAccount\<lparr>code := Some ''0x0000cc00'',
                                   codeHash := ''0xdigest_of_0000cc00''\<rparr>))" for input
    by (simp add: verified_artifact_def bind_err_def o r example_keccak example_relocate)
  then have "handlers compiler_env VERIFIED dummyAccount verified_data
     = Inr (Some (dummyAccount\<lparr>code := Some ''0x0000cc00'', codeHash := ''0xdigest_of_0000cc00''\<rparr>))"
    by (simp add: verified_def example_find_contract example_versions example_compile_new
          verified_output_def example_select bind_err_def)
  moreover have "slice ''0x0000cc00'' 2 (2 + 2) = ''00''" "slice ''0x0000cc00'' 6 (6 + 2) = ''cc''"
    by (simp_all add: slice_def slice_index_def)
  moreover have "object ovm_bytecode = ''0xaabbccdd''" by (simp add: ovm_bytecode_def)
  ultimately show ?thesis
    by (simp add: o r example_splices)
qed

end
